theory Spec2Isabelle
  imports Complex_Main "HOL-Library.Sublist"
begin

section \<open>The upload component (DocumentUpload)\<close>

text \<open>
  The component keeps its state in React hooks; the model is a record with one field per
  hook, and every handler is a function from the state before the event to the state
  after it. Strings are byte strings: the two emoji the component writes into its status
  line are given by their UTF-8 bytes.
\<close>

text \<open>The browser's File object: \<open>File.name\<close>, \<open>File.size\<close> (bytes) and \<open>File.type\<close>.\<close>

record File =
  file_name :: string
  file_bytes :: nat
  file_mime :: string

record DocumentType =
  key :: string
  name :: string
  fields_count :: nat

record upload_state =
  documentTypes :: "DocumentType list"
  selectedType :: string
  selectedFile :: "File option"
  isDragging :: bool
  uploading :: bool
  uploadStatus :: string
  loadingTypes :: bool
  error :: string

text \<open>The values of the \<open>useState\<close> calls at the first render.\<close>

definition initial_state :: upload_state where
  "initial_state =
     \<lparr>documentTypes = [], selectedType = [], selectedFile = None, isDragging = False,
      uploading = False, uploadStatus = [], loadingTypes = True, error = []\<rparr>"

definition handleDragOver :: "upload_state \<Rightarrow> upload_state" where
  "handleDragOver s = s\<lparr>isDragging := True\<rparr>"

definition handleDragLeave :: "upload_state \<Rightarrow> upload_state" where
  "handleDragLeave s = s\<lparr>isDragging := False\<rparr>"

text \<open>
  \<open>handleDrop\<close> and \<open>handleFileSelect\<close> read a FileList that may be missing or empty
  (\<open>files && files[0]\<close>) and select its first entry. Neither reads the name, the size or
  the type of the file.
\<close>

definition handleDrop :: "File list option \<Rightarrow> upload_state \<Rightarrow> upload_state" where
  "handleDrop files s =
     (let s1 = s\<lparr>isDragging := False\<rparr> in
      case files of
        None \<Rightarrow> s1
      | Some [] \<Rightarrow> s1
      | Some (f # rest) \<Rightarrow> s1\<lparr>selectedFile := Some f\<rparr>)"

definition handleFileSelect :: "File list option \<Rightarrow> upload_state \<Rightarrow> upload_state" where
  "handleFileSelect files s =
     (case files of
        None \<Rightarrow> s
      | Some [] \<Rightarrow> s
      | Some (f # rest) \<Rightarrow> s\<lparr>selectedFile := Some f\<rparr>)"

definition handleTypeChange :: "string \<Rightarrow> upload_state \<Rightarrow> upload_state" where
  "handleTypeChange v s = s\<lparr>selectedType := v\<rparr>"

subsection \<open>The request\<close>

datatype form_value = FilePart File | TextPart string

record post_request =
  url :: string
  body :: "(string \<times> form_value) list"
  content_type :: string

text \<open>
  How \<open>axios.post\<close> ends: the promise resolves, or it rejects with an error whose
  \<open>response.data.detail\<close> may be missing and whose \<open>message\<close> is a string.
\<close>

datatype post_result = Resolved | Rejected "string option" string

datatype effect = AxiosPost post_request | OnUploadSuccess | SetTimeoutClearStatus nat

definition check_mark :: string where
  "check_mark = [CHR 0xE2, CHR 0x9C, CHR 0x85]"

definition cross_mark :: string where
  "cross_mark = [CHR 0xE2, CHR 0x9D, CHR 0x8C]"

text \<open>\<open>process.env.NEXT_PUBLIC_API_URL || 'http://localhost:8001'\<close>\<close>

definition API_URL :: "string option \<Rightarrow> string" where
  "API_URL env =
     (case env of
        None \<Rightarrow> ''http://localhost:8001''
      | Some u \<Rightarrow> if u = [] then ''http://localhost:8001'' else u)"

definition upload_request :: "string option \<Rightarrow> File \<Rightarrow> string \<Rightarrow> post_request" where
  "upload_request env f t =
     \<lparr>url = API_URL env @ ''/api/upload'',
      body = [(''file'', FilePart f), (''document_type'', TextPart t)],
      content_type = ''multipart/form-data''\<rparr>"

text \<open>\<open>error.response?.data?.detail || error.message\<close>\<close>

definition error_text :: "string option \<Rightarrow> string \<Rightarrow> string" where
  "error_text detail message =
     (case detail of
        None \<Rightarrow> message
      | Some d \<Rightarrow> if d = [] then message else d)"

text \<open>The state while the request is in flight.\<close>

definition upload_in_flight :: "upload_state \<Rightarrow> upload_state" where
  "upload_in_flight s = s\<lparr>uploading := True, uploadStatus := ''Uploading...''\<rparr>"

text \<open>
  \<open>handleUpload\<close>, from the click to the end of its \<open>finally\<close> block: the state it
  leaves and the effects it had, in order. The first branch is the early return.
\<close>

definition handleUpload ::
  "string option \<Rightarrow> post_result \<Rightarrow> upload_state \<Rightarrow> upload_state \<times> effect list" where
  "handleUpload env res s =
     (case selectedFile s of
        None \<Rightarrow> (s\<lparr>uploadStatus := ''Please select both a document type and file''\<rparr>, [])
      | Some f \<Rightarrow>
          if selectedType s = []
          then (s\<lparr>uploadStatus := ''Please select both a document type and file''\<rparr>, [])
          else
            (let s1 = upload_in_flight s;
                 req = upload_request env f (selectedType s)
             in case res of
                  Resolved \<Rightarrow>
                    (s1\<lparr>uploadStatus := check_mark @ '' Upload successful! Processing started...'',
                        selectedFile := None,
                        selectedType := [],
                        uploading := False\<rparr>,
                     [AxiosPost req, OnUploadSuccess, SetTimeoutClearStatus 3000])
                | Rejected detail message \<Rightarrow>
                    (s1\<lparr>uploadStatus := cross_mark @ '' Upload failed: '' @ error_text detail message,
                        uploading := False\<rparr>,
                     [AxiosPost req])))"

text \<open>The timer set after a successful upload.\<close>

definition clear_status :: "upload_state \<Rightarrow> upload_state" where
  "clear_status s = s\<lparr>uploadStatus := []\<rparr>"

text \<open>\<open>disabled={!selectedFile || !selectedType || uploading}\<close>\<close>

definition upload_button_disabled :: "upload_state \<Rightarrow> bool" where
  "upload_button_disabled s = (selectedFile s = None \<or> selectedType s = [] \<or> uploading s)"

text \<open>A click on the button: a disabled button has no click event.\<close>

definition click_upload ::
  "string option \<Rightarrow> post_result \<Rightarrow> upload_state \<Rightarrow> upload_state \<times> effect list" where
  "click_upload env res s = (if upload_button_disabled s then (s, []) else handleUpload env res s)"

definition posts :: "effect list \<Rightarrow> post_request list" where
  "posts es = concat (map (\<lambda>e. case e of AxiosPost r \<Rightarrow> [r] | _ \<Rightarrow> []) es)"

subsection \<open>The file input and the limits the component shows\<close>

text \<open>
  The hidden file input carries \<open>accept=".pdf,.png,.jpg,.jpeg"\<close>, and the text under it
  reads "Supported formats: PDF, PNG, JPG, JPEG (Max 10MB)". The attribute is a hint to
  the browser's file picker, which a user can override; no handler of the component
  reads it, and the drop zone has no such attribute. \<open>accepted_by_input\<close> says whether
  the name of a file ends in one of the extensions the attribute lists, and
  \<open>within_shown_limits\<close> whether a file is inside the limits the text shows.
\<close>

definition accept :: "string list" where
  "accept = [''.pdf'', ''.png'', ''.jpg'', ''.jpeg'']"

definition endsWith :: "string \<Rightarrow> string \<Rightarrow> bool" where
  "endsWith s e = (length e \<le> length s \<and> drop (length s - length e) s = e)"

text \<open>Extensions are compared without regard to the case of ASCII letters.\<close>

definition lower_char :: "char \<Rightarrow> char" where
  "lower_char c =
     (if 65 \<le> (of_char c :: nat) \<and> (of_char c :: nat) \<le> 90
      then (case c of Char b0 b1 b2 b3 b4 b5 b6 b7 \<Rightarrow> Char b0 b1 b2 b3 b4 True b6 b7)
      else c)"

definition toLowerCase :: "string \<Rightarrow> string" where
  "toLowerCase s = map lower_char s"

definition accepted_by_input :: "File \<Rightarrow> bool" where
  "accepted_by_input f = list_ex (endsWith (toLowerCase (file_name f))) accept"

definition max_upload_bytes :: nat where
  "max_upload_bytes = 10 * 1024 * 1024"

definition within_shown_limits :: "File \<Rightarrow> bool" where
  "within_shown_limits f = (file_bytes f \<le> max_upload_bytes \<and> accepted_by_input f)"

section \<open>The results table (ResultsTable)\<close>

record ExtractedField =
  field_name :: string
  field_value :: "string option"
  confidence :: rat
  page_number :: nat

record Document =
  doc_id :: nat
  document_type :: string
  original_filename :: string
  file_size :: nat
  upload_date :: string
  status :: string
  ocr_confidence :: rat
  error_message :: "string option"
  extracted_fields :: "ExtractedField list"

text \<open>
  What a cell shows: text, or the grey italic span
  \<open><span className="text-gray-400 italic font-normal">Not found</span>\<close>.
\<close>

datatype node = Text string | Span string string

definition not_found :: node where
  "not_found = Span ''text-gray-400 italic font-normal'' ''Not found''"

text \<open>
  \<open>field.field_value || <span>Not found</span>\<close>: JavaScript's \<open>||\<close> yields its right
  operand when the left one is falsy, and of the values of \<open>string | null\<close> the falsy ones
  are \<open>null\<close> and the empty string.
\<close>

definition render_field_value :: "string option \<Rightarrow> node" where
  "render_field_value v =
     (case v of
        None \<Rightarrow> not_found
      | Some t \<Rightarrow> if t = [] then not_found else Text t)"

text \<open>\<open>field.field_name.replace(/_/g, ' ')\<close>\<close>

definition field_label :: "string \<Rightarrow> string" where
  "field_label n = map (\<lambda>c. if c = CHR ''_'' then CHR '' '' else c) n"

definition render_field :: "ExtractedField \<Rightarrow> string \<times> node" where
  "render_field f = (field_label (field_name f), render_field_value (field_value f))"

text \<open>The expanded row of a document, and the "Fields Extracted" cell of its row.\<close>

datatype expanded = ProcessingNotice | NoFieldsExtracted | FieldGrid "(string \<times> node) list"

definition in_progress :: "Document \<Rightarrow> bool" where
  "in_progress d = (status d = ''processing'' \<or> status d = ''pending'')"

definition render_expanded :: "Document \<Rightarrow> expanded" where
  "render_expanded d =
     (if in_progress d then ProcessingNotice
      else if extracted_fields d = [] then NoFieldsExtracted
      else FieldGrid (map render_field (extracted_fields d)))"

datatype fields_cell = ProcessingBadge | FieldCount nat

definition render_fields_cell :: "Document \<Rightarrow> fields_cell" where
  "render_fields_cell d =
     (if in_progress d then ProcessingBadge else FieldCount (length (extracted_fields d)))"

section \<open>The confidence aggregator and the status resolver\<close>

text \<open>
  Modelled from the spec: the stage that fills a record's fields, overall confidence and
  status runs behind the upload endpoint and is not among the sources, which hold the
  two components above and their configuration. The definitions of this section follow
  the words of the spec's data model and of its section on the Confidence Aggregator and
  Status Resolver; the fields are the \<open>ExtractedField\<close> values the results table reads.
\<close>

datatype run_status = Pending | Processing | Done | Partial | Failed

fun status_string :: "run_status \<Rightarrow> string" where
  "status_string Pending = ''pending''"
| "status_string Processing = ''processing''"
| "status_string Done = ''done''"
| "status_string Partial = ''partial''"
| "status_string Failed = ''failed''"

fun terminal :: "run_status \<Rightarrow> bool" where
  "terminal Done = True"
| "terminal Partial = True"
| "terminal Failed = True"
| "terminal Pending = False"
| "terminal Processing = False"

datatype strategy = KeywordAnchored | PositionalRegex | MrzDerived | FixedOffset

datatype shape = ShapeString | ShapeDate | ShapeNumber | ShapeEnumerated "string list"

record FieldSpec =
  spec_name :: string
  spec_strategy :: strategy
  spec_shape :: shape
  required :: bool

record DocumentTypeSchema =
  schema_key :: string
  display_name :: string
  schema_fields :: "FieldSpec list"

record ExtractionRecord =
  document_identifier :: nat
  document_type_key :: string
  record_fields :: "ExtractedField list"
  overall_confidence :: rat
  record_status :: run_status
  record_error :: "string option"

text \<open>
  The errors that end a run. An unknown document type is refused before a run starts and
  creates no record, so it is not one of them.
\<close>

datatype pipeline_error =
  UnsupportedFormatError | CorruptInputError | EngineFailureError | TimeoutError

text \<open>How a run ends: with the field list, or with an error and its message for the caller.\<close>

datatype outcome = Extracted "ExtractedField list" | Unrecoverable pipeline_error string

subsection \<open>Overall confidence\<close>

text \<open>
  Modelled from the spec: the Confidence Aggregator is not among the sources. One pass
  over the field list, keeping the sum and the number of the confidences of the fields
  that have a value; the overall confidence is their quotient, and 0 when no field has a
  value. Confidences are rationals.
\<close>

fun confidence_totals :: "ExtractedField list \<Rightarrow> rat \<times> nat" where
  "confidence_totals [] = (0, 0)"
| "confidence_totals (f # fs) =
     (case confidence_totals fs of
        (t, n) \<Rightarrow> if field_value f = None then (t, n) else (confidence f + t, Suc n))"

definition aggregate_confidence :: "ExtractedField list \<Rightarrow> rat" where
  "aggregate_confidence fs =
     (case confidence_totals fs of (t, n) \<Rightarrow> if n = 0 then 0 else t / of_nat n)"

text \<open>The spec's words: the arithmetic mean of the non-null field confidences.\<close>

definition non_null :: "ExtractedField list \<Rightarrow> ExtractedField list" where
  "non_null fs = filter (\<lambda>f. field_value f \<noteq> None) fs"

definition arithmetic_mean :: "rat list \<Rightarrow> rat" where
  "arithmetic_mean cs = sum_list cs / of_nat (length cs)"

subsection \<open>Status\<close>

text \<open>
  The value a field list gives a field name: that of the first field of that name, and
  null when the list has none.
\<close>

definition value_of :: "ExtractedField list \<Rightarrow> string \<Rightarrow> string option" where
  "value_of fs n =
     (case find (\<lambda>f. field_name f = n) fs of
        None \<Rightarrow> None
      | Some f \<Rightarrow> field_value f)"

definition required_names :: "DocumentTypeSchema \<Rightarrow> string list" where
  "required_names sch = map spec_name (filter required (schema_fields sch))"

definition missing_required :: "DocumentTypeSchema \<Rightarrow> ExtractedField list \<Rightarrow> string list" where
  "missing_required sch fs = filter (\<lambda>n. value_of fs n = None) (required_names sch)"

definition present_required :: "DocumentTypeSchema \<Rightarrow> ExtractedField list \<Rightarrow> string list" where
  "present_required sch fs = filter (\<lambda>n. value_of fs n \<noteq> None) (required_names sch)"

text \<open>
  Modelled from the spec: the Status Resolver is not among the sources. The spec gives
  \<open>done\<close> to a run whose required fields all have a value, \<open>partial\<close> to one with a
  required field null and another non-null, and in its blank-page scenario \<open>partial\<close>
  to one whose required fields are all null: every completed run that is not \<open>done\<close>
  is \<open>partial\<close>.
\<close>

definition resolve_status :: "DocumentTypeSchema \<Rightarrow> ExtractedField list \<Rightarrow> run_status" where
  "resolve_status sch fs = (if missing_required sch fs = [] then Done else Partial)"

subsection \<open>The life of a record\<close>

definition new_record :: "nat \<Rightarrow> string \<Rightarrow> ExtractionRecord" where
  "new_record i k =
     \<lparr>document_identifier = i, document_type_key = k, record_fields = [],
      overall_confidence = 0, record_status = Pending, record_error = None\<rparr>"

datatype event = Accept | Finish outcome

text \<open>
  Modelled from the spec: the code that moves a record from one status to the next is
  not among the sources. One event on a record: \<open>None\<close> when the record's status has
  no such transition. Only a pending record is accepted, and only a processing one
  finishes: with its fields, overall confidence and resolved status, or failed with the
  error's message.
\<close>

fun step :: "DocumentTypeSchema \<Rightarrow> event \<Rightarrow> ExtractionRecord \<Rightarrow> ExtractionRecord option" where
  "step sch Accept r =
     (if record_status r = Pending then Some (r\<lparr>record_status := Processing\<rparr>) else None)"
| "step sch (Finish (Extracted fs)) r =
     (if record_status r = Processing
      then Some (r\<lparr>record_fields := fs,
                    overall_confidence := aggregate_confidence fs,
                    record_status := resolve_status sch fs\<rparr>)
      else None)"
| "step sch (Finish (Unrecoverable e m)) r =
     (if record_status r = Processing
      then Some (r\<lparr>record_status := Failed, record_error := Some m\<rparr>)
      else None)"

text \<open>
  Modelled from the spec: the statuses a record takes under a sequence of events,
  oldest first; an event with no transition leaves the record as it is.
\<close>

fun statuses :: "DocumentTypeSchema \<Rightarrow> event list \<Rightarrow> ExtractionRecord \<Rightarrow> run_status list" where
  "statuses sch [] r = [record_status r]"
| "statuses sch (e # es) r =
     (case step sch e r of
        None \<Rightarrow> statuses sch es r
      | Some r1 \<Rightarrow> record_status r # statuses sch es r1)"

text \<open>
  Modelled from the spec: processing a document again is a new run, a pending record
  after the ones there are; the store of runs is not among the sources.
\<close>

definition reprocess :: "nat \<Rightarrow> string \<Rightarrow> ExtractionRecord list \<Rightarrow> ExtractionRecord list" where
  "reprocess i k runs = runs @ [new_record i k]"

section \<open>Example values\<close>

definition oversized_scan :: File where
  "oversized_scan =
     \<lparr>file_name = ''scan.pdf'', file_bytes = 20971520, file_mime = ''application/pdf''\<rparr>"

definition contract_docx :: File where
  "contract_docx =
     \<lparr>file_name = ''contract.docx'', file_bytes = 48213,
      file_mime = ''application/vnd.openxmlformats-officedocument.wordprocessingml.document''\<rparr>"

definition passport_chosen :: upload_state where
  "passport_chosen = handleTypeChange ''PASSPORT'' (initial_state\<lparr>loadingTypes := False\<rparr>)"

definition example_fields :: "ExtractedField list" where
  "example_fields =
     [\<lparr>field_name = ''passport_number'', field_value = Some ''L898902C3'',
       confidence = 9 / 10, page_number = 1\<rparr>,
      \<lparr>field_name = ''surname'', field_value = Some [], confidence = 3 / 5, page_number = 1\<rparr>,
      \<lparr>field_name = ''given_names'', field_value = None, confidence = 0, page_number = 1\<rparr>]"

definition example_document :: Document where
  "example_document =
     \<lparr>doc_id = 7, document_type = ''PASSPORT'', original_filename = ''passport.png'',
      file_size = 48213, upload_date = ''2024-01-15T10:30:00'', status = ''partial'',
      ocr_confidence = 3 / 4, error_message = None, extracted_fields = example_fields\<rparr>"

definition example_schema :: DocumentTypeSchema where
  "example_schema =
     \<lparr>schema_key = ''PASSPORT'', display_name = ''Passport'',
      schema_fields =
        [\<lparr>spec_name = ''passport_number'', spec_strategy = MrzDerived,
          spec_shape = ShapeString, required = True\<rparr>,
         \<lparr>spec_name = ''surname'', spec_strategy = MrzDerived,
          spec_shape = ShapeString, required = True\<rparr>,
         \<lparr>spec_name = ''given_names'', spec_strategy = MrzDerived,
          spec_shape = ShapeString, required = False\<rparr>]\<rparr>"

text \<open>What a blank page gives: no token, so every field null with confidence 0.\<close>

definition blank_page_fields :: "ExtractedField list" where
  "blank_page_fields =
     [\<lparr>field_name = ''passport_number'', field_value = None, confidence = 0, page_number = 1\<rparr>,
      \<lparr>field_name = ''surname'', field_value = None, confidence = 0, page_number = 1\<rparr>,
      \<lparr>field_name = ''given_names'', field_value = None, confidence = 0, page_number = 1\<rparr>]"

definition processing_record :: ExtractionRecord where
  "processing_record = (new_record 7 ''PASSPORT'')\<lparr>record_status := Processing\<rparr>"

section \<open>Properties of the upload component\<close>

lemma early_return:
  "selectedFile s = None \<or> selectedType s = [] \<Longrightarrow>
     handleUpload env res s =
       (s\<lparr>uploadStatus := ''Please select both a document type and file''\<rparr>, [])"
  by (cases "selectedFile s") (auto simp: handleUpload_def)

lemma posts_of_upload:
  "selectedFile s = Some f \<Longrightarrow> selectedType s \<noteq> [] \<Longrightarrow>
     posts (snd (handleUpload env res s)) = [upload_request env f (selectedType s)]"
  by (cases res) (simp_all add: handleUpload_def posts_def Let_def)

lemma posted_request:
  "r \<in> set (posts (snd (handleUpload env res s))) \<Longrightarrow>
     \<exists>f. selectedFile s = Some f \<and> selectedType s \<noteq> [] \<and>
         r = upload_request env f (selectedType s)"
proof (cases "selectedFile s = None \<or> selectedType s = []")
  case True
  assume "r \<in> set (posts (snd (handleUpload env res s)))"
  with early_return [OF True, of env res] show ?thesis by (simp add: posts_def)
next
  case False
  then obtain f where f: "selectedFile s = Some f" and t: "selectedType s \<noteq> []" by auto
  assume "r \<in> set (posts (snd (handleUpload env res s)))"
  with posts_of_upload [OF f t, of env res] f t show ?thesis by simp
qed

lemma passport_chosen_simps:
  "selectedType passport_chosen = ''PASSPORT''"
  "selectedFile passport_chosen = None"
  "uploading passport_chosen = False"
  by (simp_all add: passport_chosen_def handleTypeChange_def initial_state_def)

lemma not_accepted_docx: "\<not> accepted_by_input contract_docx"
  by (simp add: accepted_by_input_def contract_docx_def accept_def endsWith_def
      toLowerCase_def lower_char_def)

lemma file_select_first:
  "selectedFile (handleFileSelect (Some (f # rest)) s) = Some f"
  "selectedType (handleFileSelect (Some (f # rest)) s) = selectedType s"
  by (simp_all add: handleFileSelect_def)

lemma drop_first:
  "selectedFile (handleDrop (Some (f # rest)) s) = Some f"
  "selectedType (handleDrop (Some (f # rest)) s) = selectedType s"
  by (simp_all add: handleDrop_def)

text \<open>
  C7, as the claim states it, fails: with a document type selected, \<open>handleUpload\<close> posts
  a 20 MB scan picked through the file input, twice the size the component shows as its
  limit, and it posts a .docx file picked through the same input, whose extension is
  none of those the component lists.
\<close>

theorem files_outside_limits_are_posted:
  "posts (snd (handleUpload None Resolved
       (handleFileSelect (Some [oversized_scan]) passport_chosen)))
     = [upload_request None oversized_scan ''PASSPORT'']
   \<and> max_upload_bytes < file_bytes oversized_scan
   \<and> \<not> within_shown_limits oversized_scan
   \<and> posts (snd (handleUpload None Resolved
       (handleFileSelect (Some [contract_docx]) passport_chosen)))
     = [upload_request None contract_docx ''PASSPORT'']
   \<and> \<not> accepted_by_input contract_docx
   \<and> \<not> within_shown_limits contract_docx"
proof -
  have 1: "posts (snd (handleUpload None Resolved
       (handleFileSelect (Some [oversized_scan]) passport_chosen)))
     = [upload_request None oversized_scan ''PASSPORT'']"
    using posts_of_upload [of "handleFileSelect (Some [oversized_scan]) passport_chosen"
        oversized_scan None Resolved]
    by (simp add: file_select_first passport_chosen_simps)
  have 2: "posts (snd (handleUpload None Resolved
       (handleFileSelect (Some [contract_docx]) passport_chosen)))
     = [upload_request None contract_docx ''PASSPORT'']"
    using posts_of_upload [of "handleFileSelect (Some [contract_docx]) passport_chosen"
        contract_docx None Resolved]
    by (simp add: file_select_first passport_chosen_simps)
  have 3: "max_upload_bytes < file_bytes oversized_scan"
    by (simp add: max_upload_bytes_def oversized_scan_def)
  from 1 2 3 not_accepted_docx show ?thesis
    by (simp add: within_shown_limits_def)
qed

text \<open>
  C7, amended: once a document type is selected, the upload component sends the selected
  file to the upload endpoint whatever its size and whatever its name or type; its
  handlers check only that a file and a document type are selected, and check neither
  the 10MB limit nor the formats the component shows.
\<close>

theorem upload_sends_any_selected_file:
  "(selectedType s \<noteq> [] \<longrightarrow>
      posts (snd (handleUpload env res (s\<lparr>selectedFile := Some (f\<lparr>file_bytes := n\<rparr>)\<rparr>)))
        = [upload_request env (f\<lparr>file_bytes := n\<rparr>) (selectedType s)])
   \<and> (selectedType s \<noteq> [] \<longrightarrow>
      posts (snd (handleUpload env res (handleFileSelect (Some (f # rest)) s)))
        = [upload_request env f (selectedType s)])"
proof (intro conjI impI)
  assume "selectedType s \<noteq> []"
  then show "posts (snd (handleUpload env res (s\<lparr>selectedFile := Some (f\<lparr>file_bytes := n\<rparr>)\<rparr>)))
        = [upload_request env (f\<lparr>file_bytes := n\<rparr>) (selectedType s)]"
    using posts_of_upload [of "s\<lparr>selectedFile := Some (f\<lparr>file_bytes := n\<rparr>)\<rparr>"
        "f\<lparr>file_bytes := n\<rparr>" env res]
    by simp
next
  assume "selectedType s \<noteq> []"
  then show "posts (snd (handleUpload env res (handleFileSelect (Some (f # rest)) s)))
        = [upload_request env f (selectedType s)]"
    using posts_of_upload [of "handleFileSelect (Some (f # rest)) s" f env res]
    by (simp add: file_select_first)
qed

theorem upload_sends_any_selected_file_witness:
  "posts (snd (handleUpload None (Rejected None ''Network Error'')
       (passport_chosen\<lparr>selectedFile := Some (oversized_scan\<lparr>file_bytes := 2 ^ 40\<rparr>)\<rparr>)))
     = [upload_request None (oversized_scan\<lparr>file_bytes := 2 ^ 40\<rparr>) ''PASSPORT'']
   \<and> posts (snd (handleUpload None (Rejected None ''Network Error'')
       (handleFileSelect (Some [contract_docx]) passport_chosen)))
     = [upload_request None contract_docx ''PASSPORT'']"
  using upload_sends_any_selected_file [where s = passport_chosen and env = None
        and res = "Rejected None ''Network Error''" and f = oversized_scan and n = "2 ^ 40"
        and rest = "[]"]
    upload_sends_any_selected_file [where s = passport_chosen and env = None
        and res = "Rejected None ''Network Error''" and f = contract_docx and rest = "[]"]
  by (simp add: passport_chosen_simps)



text \<open>
  C9: with no file or no document type selected, the upload handler returns early: it
  sets the prompt message, sends no request and leaves the selected file and type as
  they were, and the button is disabled, so a click does nothing. Every request the
  handler posts goes to the upload endpoint and carries the selected file as its
  \<open>file\<close> part and the selected, non-empty type as its \<open>document_type\<close> part.
\<close>

theorem upload_needs_file_and_type:
  "(selectedFile s = None \<or> selectedType s = [] \<longrightarrow>
      handleUpload env res s =
        (s\<lparr>uploadStatus := ''Please select both a document type and file''\<rparr>, [])
      \<and> selectedFile (fst (handleUpload env res s)) = selectedFile s
      \<and> selectedType (fst (handleUpload env res s)) = selectedType s
      \<and> posts (snd (handleUpload env res s)) = []
      \<and> upload_button_disabled s
      \<and> click_upload env res s = (s, []))
   \<and> (\<forall>r \<in> set (posts (snd (handleUpload env res s))).
        \<exists>f t. selectedFile s = Some f \<and> selectedType s = t \<and> t \<noteq> [] \<and>
              url r = API_URL env @ ''/api/upload'' \<and>
              body r = [(''file'', FilePart f), (''document_type'', TextPart t)])"
proof (intro conjI impI ballI)
  assume a: "selectedFile s = None \<or> selectedType s = []"
  note e = early_return [OF a, of env res]
  show "handleUpload env res s =
      (s\<lparr>uploadStatus := ''Please select both a document type and file''\<rparr>, [])"
    by (rule e)
  show "selectedFile (fst (handleUpload env res s)) = selectedFile s"
    by (simp only: e fst_conv) simp
  show "selectedType (fst (handleUpload env res s)) = selectedType s"
    by (simp only: e fst_conv) simp
  show "posts (snd (handleUpload env res s)) = []"
    by (simp only: e snd_conv) (simp add: posts_def)
  show "upload_button_disabled s"
    using a by (auto simp: upload_button_disabled_def)
  then show "click_upload env res s = (s, [])"
    by (simp add: click_upload_def)
next
  fix r
  assume "r \<in> set (posts (snd (handleUpload env res s)))"
  from posted_request [OF this] obtain f
    where "selectedFile s = Some f" "selectedType s \<noteq> []"
      "r = upload_request env f (selectedType s)" by blast
  then show "\<exists>f t. selectedFile s = Some f \<and> selectedType s = t \<and> t \<noteq> [] \<and>
              url r = API_URL env @ ''/api/upload'' \<and>
              body r = [(''file'', FilePart f), (''document_type'', TextPart t)]"
    by (simp add: upload_request_def)
qed

theorem upload_needs_file_and_type_witness:
  "handleUpload None Resolved passport_chosen =
      (passport_chosen\<lparr>uploadStatus := ''Please select both a document type and file''\<rparr>, [])
   \<and> upload_button_disabled passport_chosen
   \<and> click_upload None Resolved passport_chosen = (passport_chosen, [])
   \<and> posts (snd (handleUpload None Resolved (handleDrop (Some [contract_docx]) passport_chosen)))
       = [upload_request None contract_docx ''PASSPORT'']
   \<and> body (upload_request None contract_docx ''PASSPORT'')
       = [(''file'', FilePart contract_docx), (''document_type'', TextPart ''PASSPORT'')]"
proof -
  let ?s = "handleDrop (Some [contract_docx]) passport_chosen"
  have p: "posts (snd (handleUpload None Resolved ?s)) = [upload_request None contract_docx ''PASSPORT'']"
    using posts_of_upload [of ?s contract_docx None Resolved]
    by (simp add: drop_first passport_chosen_simps)
  have "\<forall>r \<in> set (posts (snd (handleUpload None Resolved ?s))).
        \<exists>f t. selectedFile ?s = Some f \<and> selectedType ?s = t \<and> t \<noteq> [] \<and>
              url r = API_URL None @ ''/api/upload'' \<and>
              body r = [(''file'', FilePart f), (''document_type'', TextPart t)]"
    using upload_needs_file_and_type [of ?s None Resolved] by blast
  with p have "body (upload_request None contract_docx ''PASSPORT'')
       = [(''file'', FilePart contract_docx), (''document_type'', TextPart ''PASSPORT'')]"
    by (simp add: drop_first passport_chosen_simps)
  with p show ?thesis
    using upload_needs_file_and_type [of passport_chosen None Resolved]
    by (simp add: passport_chosen_simps)
qed

section \<open>Properties of the results table\<close>

text \<open>
  C10: the results table shows the placeholder "Not found" for a field exactly when
  the field's value is falsy, that is null or the empty string, so an empty value is
  shown as a null one is; this holds for every card of the grid of an expanded document.
\<close>

theorem falsy_value_shows_not_found:
  "(render_field_value v = not_found \<longleftrightarrow> v = None \<or> v = Some [])
   \<and> render_field_value (Some []) = render_field_value None
   \<and> (render_expanded d = FieldGrid cards \<longrightarrow>
        length cards = length (extracted_fields d) \<and>
        (\<forall>i < length cards.
           fst (cards ! i) = field_label (field_name (extracted_fields d ! i)) \<and>
           (snd (cards ! i) = not_found \<longleftrightarrow>
              field_value (extracted_fields d ! i) = None \<or>
              field_value (extracted_fields d ! i) = Some [])))"
  by (auto simp: render_field_value_def not_found_def render_expanded_def render_field_def
      split: option.splits if_splits)

lemma example_grid:
  "render_expanded example_document =
     FieldGrid [(''passport number'', Text ''L898902C3''), (''surname'', not_found),
                (''given names'', not_found)]"
  by (simp add: render_expanded_def example_document_def example_fields_def in_progress_def
      render_field_def render_field_value_def field_label_def)

theorem falsy_value_shows_not_found_witness:
  "render_field_value (Some []) = not_found
   \<and> render_expanded example_document =
       FieldGrid [(''passport number'', Text ''L898902C3''), (''surname'', not_found),
                  (''given names'', not_found)]
   \<and> field_value (extracted_fields example_document ! 1) = Some []
   \<and> field_value (extracted_fields example_document ! 2) = None"
  using falsy_value_shows_not_found [of "Some []" example_document
      "[(''passport number'', Text ''L898902C3''), (''surname'', not_found),
        (''given names'', not_found)]"]
    example_grid
  by (simp add: example_document_def example_fields_def)

section \<open>Properties of the aggregator and the resolver\<close>

lemma confidence_totals_eq:
  "confidence_totals fs = (sum_list (map confidence (non_null fs)), length (non_null fs))"
  by (induction fs) (auto simp: non_null_def)

lemma aggregate_confidence_mean:
  "aggregate_confidence fs =
     (if non_null fs = [] then 0 else arithmetic_mean (map confidence (non_null fs)))"
  by (simp add: aggregate_confidence_def confidence_totals_eq arithmetic_mean_def)

lemma non_null_empty: "(non_null fs = []) = (\<forall>f \<in> set fs. field_value f = None)"
  by (auto simp: non_null_def filter_empty_conv)

lemma finish_extracted:
  "step sch (Finish (Extracted fs)) r = Some r1 \<Longrightarrow>
     record_status r = Processing \<and> record_fields r1 = fs \<and>
     overall_confidence r1 = aggregate_confidence fs \<and>
     record_status r1 = resolve_status sch fs"
  by (auto split: if_splits)

lemma finish_processing:
  "record_status r = Processing \<Longrightarrow>
     step sch (Finish (Extracted fs)) r =
       Some (r\<lparr>record_fields := fs, overall_confidence := aggregate_confidence fs,
               record_status := resolve_status sch fs\<rparr>)"
  by simp

lemma missing_required_empty:
  "(missing_required sch fs = []) = (\<forall>n \<in> set (required_names sch). value_of fs n \<noteq> None)"
  by (auto simp: missing_required_def filter_empty_conv)

lemma processing_record_status: "record_status processing_record = Processing"
  by (simp add: processing_record_def)

lemma example_required: "required_names example_schema = [''passport_number'', ''surname'']"
  by (simp add: required_names_def example_schema_def)

lemma blank_page_values:
  "value_of blank_page_fields ''passport_number'' = None"
  "value_of blank_page_fields ''surname'' = None"
  by (simp_all add: value_of_def blank_page_fields_def)

lemma example_values:
  "value_of example_fields ''passport_number'' = Some ''L898902C3''"
  "value_of example_fields ''surname'' = Some []"
  by (simp_all add: value_of_def example_fields_def)

text \<open>
  C5: the overall confidence of a completed record is the arithmetic mean of the
  confidences of its fields with a non-null value, and 0 when every field's value is
  null.
\<close>

theorem overall_confidence_is_mean:
  "step sch (Finish (Extracted fs)) r = Some r1 \<Longrightarrow>
     record_fields r1 = fs \<and>
     overall_confidence r1 =
       (if non_null fs = [] then 0 else arithmetic_mean (map confidence (non_null fs))) \<and>
     ((\<forall>f \<in> set fs. field_value f = None) \<longrightarrow> overall_confidence r1 = 0)"
proof -
  assume a: "step sch (Finish (Extracted fs)) r = Some r1"
  from finish_extracted [OF a] have f: "record_fields r1 = fs"
    and c: "overall_confidence r1 = aggregate_confidence fs" by blast+
  have m: "overall_confidence r1 =
     (if non_null fs = [] then 0 else arithmetic_mean (map confidence (non_null fs)))"
    by (simp only: c aggregate_confidence_mean)
  have z: "(\<forall>f \<in> set fs. field_value f = None) \<longrightarrow> overall_confidence r1 = 0"
    by (simp only: m non_null_empty [symmetric]) simp
  from f m z show ?thesis by blast
qed

lemma example_non_null: "map confidence (non_null example_fields) = [9 / 10, 3 / 5]"
  by (simp add: non_null_def example_fields_def)

lemma example_non_null_ne: "non_null example_fields \<noteq> []"
  by (simp add: non_null_def example_fields_def)

lemma blank_non_null: "non_null blank_page_fields = []"
  by (simp add: non_null_def blank_page_fields_def)

theorem overall_confidence_is_mean_witness:
  "map_option overall_confidence
      (step example_schema (Finish (Extracted example_fields)) processing_record) = Some (3 / 4)
   \<and> map_option overall_confidence
      (step example_schema (Finish (Extracted blank_page_fields)) processing_record) = Some 0"
proof -
  let ?r = "\<lambda>fs. processing_record\<lparr>record_fields := fs,
      overall_confidence := aggregate_confidence fs,
      record_status := resolve_status example_schema fs\<rparr>"
  have s: "step example_schema (Finish (Extracted fs)) processing_record = Some (?r fs)" for fs
    by (rule finish_processing [OF processing_record_status])
  have "overall_confidence (?r example_fields) = 3 / 4"
    using overall_confidence_is_mean [OF s [of example_fields]]
    by (simp add: example_non_null example_non_null_ne arithmetic_mean_def)
  moreover have "overall_confidence (?r blank_page_fields) = 0"
    using overall_confidence_is_mean [OF s [of blank_page_fields]]
    by (simp add: blank_non_null)
  ultimately show ?thesis by (simp only: s option.map)
qed

text \<open>
  C2, as the claim states it, fails: for a blank page every required field is null, the
  run ends \<open>partial\<close> as the blank-page scenario has it, and no required field is
  non-null.
\<close>

theorem blank_page_is_partial:
  "map_option record_status
      (step example_schema (Finish (Extracted blank_page_fields)) processing_record)
     = Some Partial
   \<and> required_names example_schema = [''passport_number'', ''surname'']
   \<and> present_required example_schema blank_page_fields = []"
  by (simp add: processing_record_status resolve_status_def
      missing_required_def present_required_def example_required blank_page_values)

text \<open>
  C2, amended: a run that completes without an unrecoverable error moves its record
  from processing to done exactly when every required field has a non-null value, and to
  partial exactly when at least one required field is null, whether or not another
  required field is non-null; a run whose required fields are all null ends partial.
\<close>

theorem completed_run_is_done_or_partial:
  "record_status r = Processing \<Longrightarrow>
     \<exists>r1. step sch (Finish (Extracted fs)) r = Some r1 \<and>
       (record_status r1 = Done \<longleftrightarrow>
          (\<forall>n \<in> set (required_names sch). value_of fs n \<noteq> None)) \<and>
       (record_status r1 = Partial \<longleftrightarrow>
          (\<exists>n \<in> set (required_names sch). value_of fs n = None))"
  by (auto simp: resolve_status_def missing_required_empty)

theorem completed_run_is_done_or_partial_witness:
  "map_option record_status
      (step example_schema (Finish (Extracted example_fields)) processing_record) = Some Done
   \<and> map_option record_status
      (step example_schema (Finish (Extracted blank_page_fields)) processing_record)
       = Some Partial"
proof -
  obtain r1 where 1:
    "step example_schema (Finish (Extracted example_fields)) processing_record = Some r1"
    "record_status r1 = Done \<longleftrightarrow>
       (\<forall>n \<in> set (required_names example_schema). value_of example_fields n \<noteq> None)"
    using completed_run_is_done_or_partial [OF processing_record_status] by blast
  obtain r2 where 2:
    "step example_schema (Finish (Extracted blank_page_fields)) processing_record = Some r2"
    "record_status r2 = Partial \<longleftrightarrow>
       (\<exists>n \<in> set (required_names example_schema). value_of blank_page_fields n = None)"
    using completed_run_is_done_or_partial [OF processing_record_status] by blast
  from 1(2) have "record_status r1 = Done" by (simp add: example_required example_values)
  moreover from 2(2) have "record_status r2 = Partial"
    by (simp add: example_required blank_page_values)
  ultimately show ?thesis by (simp only: 1(1) 2(1) option.map)
qed

subsection \<open>The order of a record's statuses\<close>

lemma step_terminal: "terminal (record_status r) \<Longrightarrow> step sch e r = None"
  by (cases "(sch, e, r)" rule: step.cases) auto

lemma statuses_terminal: "terminal (record_status r) \<Longrightarrow> statuses sch es r = [record_status r]"
  by (induction es) (simp_all add: step_terminal)

lemma resolve_terminal: "terminal (resolve_status sch fs)"
  by (simp add: resolve_status_def)

lemma step_processing:
  "record_status r = Processing \<Longrightarrow> step sch e r = Some r1 \<Longrightarrow> terminal (record_status r1)"
  by (cases "(sch, e, r)" rule: step.cases) (auto simp: resolve_terminal)

lemma statuses_processing:
  "record_status r = Processing \<Longrightarrow>
     statuses sch es r = [Processing] \<or> (\<exists>t. terminal t \<and> statuses sch es r = [Processing, t])"
proof (induction es)
  case Nil
  then show ?case by simp
next
  case (Cons e es)
  show ?case
  proof (cases "step sch e r")
    case None
    with Cons show ?thesis by simp
  next
    case (Some r1)
    with Cons.prems have "terminal (record_status r1)" by (simp add: step_processing)
    with Some Cons.prems show ?thesis by (simp add: statuses_terminal)
  qed
qed

lemma step_pending:
  "record_status r = Pending \<Longrightarrow> step sch e r = Some r1 \<Longrightarrow> record_status r1 = Processing"
  by (cases "(sch, e, r)" rule: step.cases) auto

lemma statuses_pending:
  "record_status r = Pending \<Longrightarrow>
     statuses sch es r = [Pending] \<or> statuses sch es r = [Pending, Processing] \<or>
     (\<exists>t. terminal t \<and> statuses sch es r = [Pending, Processing, t])"
proof (induction es)
  case Nil
  then show ?case by simp
next
  case (Cons e es)
  show ?case
  proof (cases "step sch e r")
    case None
    with Cons show ?thesis by simp
  next
    case (Some r1)
    with Cons.prems have "record_status r1 = Processing" by (simp add: step_pending)
    from statuses_processing [OF this, of sch es] Some Cons.prems show ?thesis by auto
  qed
qed

text \<open>
  C6: under any sequence of events the statuses a record takes, from its creation on,
  are a subsequence of pending, processing and one of done, partial and failed; a record
  whose status is done, partial or failed has no transition and keeps that status; and
  processing a document again adds a new pending record and leaves the runs there are
  as they were.
\<close>

theorem status_never_regresses:
  "(\<exists>t. terminal t \<and> subseq (statuses sch es (new_record i k)) [Pending, Processing, t])
   \<and> (terminal (record_status r) \<longrightarrow>
        step sch e r = None \<and> statuses sch es r = [record_status r])
   \<and> take (length runs) (reprocess i k runs) = runs
   \<and> length (reprocess i k runs) = Suc (length runs)
   \<and> record_status (last (reprocess i k runs)) = Pending"
proof -
  have p: "record_status (new_record i k) = Pending" by (simp add: new_record_def)
  have "\<exists>t. terminal t \<and> subseq (statuses sch es (new_record i k)) [Pending, Processing, t]"
    using statuses_pending [OF p, of sch es]
  proof (elim disjE exE conjE)
    assume "statuses sch es (new_record i k) = [Pending]"
    then have "terminal Done \<and>
        subseq (statuses sch es (new_record i k)) [Pending, Processing, Done]" by simp
    then show ?thesis by blast
  next
    assume "statuses sch es (new_record i k) = [Pending, Processing]"
    then have "terminal Done \<and>
        subseq (statuses sch es (new_record i k)) [Pending, Processing, Done]" by simp
    then show ?thesis by blast
  next
    fix t
    assume "terminal t" "statuses sch es (new_record i k) = [Pending, Processing, t]"
    then have "terminal t \<and>
        subseq (statuses sch es (new_record i k)) [Pending, Processing, t]" by simp
    then show ?thesis by blast
  qed
  then show ?thesis
    by (simp add: step_terminal statuses_terminal reprocess_def new_record_def)
qed

lemma example_statuses:
  "statuses example_schema
      [Finish (Extracted example_fields), Accept, Accept,
       Finish (Unrecoverable TimeoutError ''timed out''), Accept,
       Finish (Extracted example_fields)]
      (new_record 7 ''PASSPORT'') = [Pending, Processing, Failed]"
  by (simp add: new_record_def)

theorem status_never_regresses_witness:
  "statuses example_schema
      [Finish (Extracted example_fields), Accept, Accept,
       Finish (Unrecoverable TimeoutError ''timed out''), Accept,
       Finish (Extracted example_fields)]
      (new_record 7 ''PASSPORT'') = [Pending, Processing, Failed]
   \<and> step example_schema Accept (processing_record\<lparr>record_status := Failed\<rparr>) = None
   \<and> reprocess 7 ''PASSPORT'' [processing_record\<lparr>record_status := Failed\<rparr>]
       = [processing_record\<lparr>record_status := Failed\<rparr>, new_record 7 ''PASSPORT'']"
  using status_never_regresses [where r = "processing_record\<lparr>record_status := Failed\<rparr>"
      and sch = example_schema and e = Accept and i = 7 and k = "''PASSPORT''"
      and runs = "[processing_record\<lparr>record_status := Failed\<rparr>]"]
    example_statuses
  by (simp add: reprocess_def)

end
